theory Spec2Isabelle
  imports Main
begin

section \<open>The threat-model definition script \<open>tm.py\<close>\<close>

text \<open>
  \<open>tm.py\<close> is a flat sequence of module-level statements: constructor calls of the
  threat-modelling library bound to names, attribute assignments on the objects so bound,
  and one guarded call of \<open>tm.process()\<close>. The statements are kept as data, in source order,
  and run by an interpreter over an explicit environment (the module's globals), an explicit
  heap (the objects, addressed in creation order) and a log of what was done.
\<close>

subsection \<open>Identifiers\<close>

text \<open>The library classes the script instantiates (the names imported on lines 3 to 13).\<close>

datatype kind = TM | Boundary | Actor | Server | Datastore | Data | Dataflow

text \<open>The module-level names the script binds, in the order of their binding.\<close>

datatype var =
    tm | internet | app_boundary | cloud_db_boundary
  | user | coach
  | frontend | api_server
  | app_db
  | credentials | profile_data | workout_data | class_schedule | session_token
  | user_to_frontend | frontend_to_user | coach_to_frontend | frontend_to_coach
  | frontend_to_api | api_to_frontend
  | api_to_db_auth | db_to_api_auth | api_to_db_profile | db_to_api_profile
  | api_to_db_workouts | db_to_api_workouts | api_to_db_classes | db_to_api_classes

text \<open>
  The attribute names the script writes. \<open>source\<close> and \<open>destination\<close> are not written by
  name in the script: they are the first two positional parameters of \<open>Dataflow\<close> (see
  \<open>params\<close> below).
\<close>

datatype field =
    name | description | isOrdered | mergeResponses | assumptions
  | inBoundary | OS | controls | sanitizesInput | encodesOutput | isHardened
  | authorizesSource | sourceFiles
  | type | inScope | maxClassification | storesPII | storesSensitiveData | port | protocol
  | classification | isPII | isStored | isDestEncryptedAtRest
  | source | destination | dstPort | tlsVersion | data | usesSessionTokens
  | traverses | processedBy

text \<open>The only method the script calls.\<close>

datatype meth = process

subsection \<open>Syntax of the statements the script uses\<close>

text \<open>
  Right-hand sides. An atom is a literal, a member of an imported enumeration class
  (\<open>Classification.SENSITIVE\<close> is \<open>Member ''Classification'' ''SENSITIVE''\<close>) or a
  module-level name; the only compound expression of the script is a list display of atoms.
\<close>

datatype atom =
    StrLit string
  | BoolLit bool
  | IntLit int
  | Member string string
  | Name var

datatype expr = Atom atom | ListOf "atom list"

text \<open>
  \<open>New x k args kws\<close> is \<open>x = k(args, kw = e, ...)\<close>; \<open>SetAttr x path e\<close> is
  \<open>x.a.b = e\<close> with \<open>path = [a, b]\<close>; \<open>Call x m\<close> is the expression statement \<open>x.m()\<close>;
  \<open>IfMain body\<close> is \<open>if __name__ == "__main__": body\<close>.
\<close>

datatype stmt =
    New var kind "expr list" "(field \<times> expr) list"
  | SetAttr var "field list" expr
  | Call var meth
  | IfMain "stmt list"

subsection \<open>Values, objects and the interpreter state\<close>

type_synonym addr = nat

datatype val =
    VStr string
  | VBool bool
  | VInt int
  | VEnum string string
  | VRef addr
  | VList "val list"

record obj =
  cls :: kind
  attrs :: "(field list \<times> val) list"

datatype event =
    Created addr
  | Assigned addr "field list"
  | Processed addr

record state =
  env :: "(var \<times> addr) list"
  heap :: "obj list"
  log :: "event list"

datatype error = NameError var | TypeError kind | AttributeError meth

definition init :: state where
  "init = \<lparr>env = [], heap = [], log = []\<rparr>"

subsection \<open>Evaluation of right-hand sides\<close>

text \<open>A name that is not bound yet raises \<open>NameError\<close>; everything else is a constant.\<close>

fun eval_atom :: "(var \<times> addr) list \<Rightarrow> atom \<Rightarrow> error + val" where
  "eval_atom E (StrLit s) = Inr (VStr s)"
| "eval_atom E (BoolLit b) = Inr (VBool b)"
| "eval_atom E (IntLit i) = Inr (VInt i)"
| "eval_atom E (Member c m) = Inr (VEnum c m)"
| "eval_atom E (Name x) = (case map_of E x of None \<Rightarrow> Inl (NameError x) | Some a \<Rightarrow> Inr (VRef a))"

fun eval_atoms :: "(var \<times> addr) list \<Rightarrow> atom list \<Rightarrow> error + val list" where
  "eval_atoms E [] = Inr []"
| "eval_atoms E (a # as) =
     (case eval_atom E a of
        Inl e \<Rightarrow> Inl e
      | Inr v \<Rightarrow> (case eval_atoms E as of Inl e \<Rightarrow> Inl e | Inr vs \<Rightarrow> Inr (v # vs)))"

fun eval :: "(var \<times> addr) list \<Rightarrow> expr \<Rightarrow> error + val" where
  "eval E (Atom a) = eval_atom E a"
| "eval E (ListOf as) = (case eval_atoms E as of Inl e \<Rightarrow> Inl e | Inr vs \<Rightarrow> Inr (VList vs))"

fun eval_args :: "(var \<times> addr) list \<Rightarrow> expr list \<Rightarrow> error + val list" where
  "eval_args E [] = Inr []"
| "eval_args E (e # es) =
     (case eval E e of
        Inl err \<Rightarrow> Inl err
      | Inr v \<Rightarrow> (case eval_args E es of Inl err \<Rightarrow> Inl err | Inr vs \<Rightarrow> Inr (v # vs)))"

fun eval_kws :: "(var \<times> addr) list \<Rightarrow> (field \<times> expr) list \<Rightarrow> error + (field \<times> val) list" where
  "eval_kws E [] = Inr []"
| "eval_kws E ((k, e) # kes) =
     (case eval E e of
        Inl err \<Rightarrow> Inl err
      | Inr v \<Rightarrow> (case eval_kws E kes of Inl err \<Rightarrow> Inl err | Inr kvs \<Rightarrow> Inr ((k, v) # kvs)))"

subsection \<open>Objects\<close>

text \<open>
  Attributes are kept in assignment order, keyed by their path; assigning an attribute
  again replaces its value in place.
\<close>

fun set_attr :: "field list \<Rightarrow> val \<Rightarrow> (field list \<times> val) list \<Rightarrow> (field list \<times> val) list" where
  "set_attr p v [] = [(p, v)]"
| "set_attr p v ((q, w) # rest) = (if q = p then (p, v) # rest else (q, w) # set_attr p v rest)"

fun set_attrs :: "(field \<times> val) list \<Rightarrow> (field list \<times> val) list \<Rightarrow> (field list \<times> val) list" where
  "set_attrs [] al = al"
| "set_attrs ((k, v) # kvs) al = set_attrs kvs (set_attr [k] v al)"

definition attr :: "field list \<Rightarrow> obj \<Rightarrow> val option" where
  "attr p ob = map_of (attrs ob) p"

text \<open>
  Modelled from the spec: the constructors belong to the third-party library, which is not
  under src/. Positional arguments are bound to the attributes the data model of the spec
  lists first for each entity, in the order the script passes them: a Dataflow takes its
  source, its destination and its name, every other entity its name. A call with too many
  positional arguments, one that gives a parameter twice, or one that leaves a parameter
  without a value, is a \<open>TypeError\<close>.
\<close>

fun params :: "kind \<Rightarrow> field list" where
  "params Dataflow = [source, destination, name]"
| "params k = [name]"

definition construct :: "kind \<Rightarrow> val list \<Rightarrow> (field \<times> val) list \<Rightarrow> error + obj" where
  "construct k pos kw =
     (let given = zip (params k) pos @ kw in
      if length (params k) < length pos \<or> \<not> distinct (map fst given)
         \<or> \<not> set (params k) \<subseteq> set (map fst given)
      then Inl (TypeError k)
      else Inr \<lparr>cls = k, attrs = set_attrs given []\<rparr>)"

subsection \<open>Execution\<close>

text \<open>
  \<open>main\<close> is the truth value of \<open>__name__ == "__main__"\<close>: \<open>True\<close> when the file is run as a
  program, \<open>False\<close> when it is imported. A constructor call allocates the next address and
  binds the name to it (an earlier binding of the same name is shadowed, the earlier object
  stays on the heap). An attribute assignment evaluates its right-hand side, then its
  target. \<open>process\<close> is a method of the model object only.
\<close>

fun exec :: "bool \<Rightarrow> stmt \<Rightarrow> state \<Rightarrow> error + state"
  and exec_all :: "bool \<Rightarrow> stmt list \<Rightarrow> state \<Rightarrow> error + state" where
  "exec main (New x k args kws) s =
     (case eval_args (env s) args of
        Inl e \<Rightarrow> Inl e
      | Inr pos \<Rightarrow>
         (case eval_kws (env s) kws of
            Inl e \<Rightarrow> Inl e
          | Inr kw \<Rightarrow>
             (case construct k pos kw of
                Inl e \<Rightarrow> Inl e
              | Inr ob \<Rightarrow>
                  Inr \<lparr>env = (x, length (heap s)) # env s,
                       heap = heap s @ [ob],
                       log = log s @ [Created (length (heap s))]\<rparr>)))"
| "exec main (SetAttr x p e) s =
     (case eval (env s) e of
        Inl err \<Rightarrow> Inl err
      | Inr v \<Rightarrow>
         (case map_of (env s) x of
            None \<Rightarrow> Inl (NameError x)
          | Some a \<Rightarrow>
              Inr \<lparr>env = env s,
                   heap = (heap s)[a := (heap s ! a)\<lparr>attrs := set_attr p v (attrs (heap s ! a))\<rparr>],
                   log = log s @ [Assigned a p]\<rparr>))"
| "exec main (Call x m) s =
     (case map_of (env s) x of
        None \<Rightarrow> Inl (NameError x)
      | Some a \<Rightarrow>
          if cls (heap s ! a) = TM
          then Inr (s\<lparr>log := log s @ [Processed a]\<rparr>)
          else Inl (AttributeError m))"
| "exec main (IfMain body) s = (if main then exec_all main body s else Inr s)"
| "exec_all main [] s = Inr s"
| "exec_all main (c # cs) s =
     (case exec main c s of Inl e \<Rightarrow> Inl e | Inr s' \<Rightarrow> exec_all main cs s')"

subsection \<open>The script\<close>

text \<open>The model object and its settings (lines 16 to 28).\<close>

definition model_decl :: "stmt list" where
  "model_decl =
    [New tm TM [Atom (StrLit ''GymCoach App Threat Model'')] [],
     SetAttr tm [description] (Atom (StrLit ''Web application for users and coaches to manage workouts, classes and progress. Architecture: HTML/JS frontend served by a Node.js/Express backend with MongoDB Atlas.'')),
     SetAttr tm [isOrdered] (Atom (BoolLit True)),
     SetAttr tm [mergeResponses] (Atom (BoolLit True)),
     SetAttr tm [assumptions] (ListOf [StrLit ''All external traffic to the application is over HTTPS through a cloud provider (e.g. Render/Heroku/Nginx).'', StrLit ''MongoDB Atlas is configured with authentication and network access control (IP allow-list / VPC peering).'', StrLit ''Passwords are stored hashed and never in plaintext.'', StrLit ''Admins/coaches use the same web interface but have elevated privileges managed by application roles.''])]"

text \<open>Trust boundaries (lines 32 to 36).\<close>

definition boundaries :: "stmt list" where
  "boundaries =
    [New internet Boundary [Atom (StrLit ''Internet'')] [],
     New app_boundary Boundary [Atom (StrLit ''Application Boundary'')] [],
     New cloud_db_boundary Boundary [Atom (StrLit ''MongoDB Atlas Boundary'')] []]"

text \<open>Actors (lines 40 to 46).\<close>

definition actors :: "stmt list" where
  "actors =
    [New user Actor [Atom (StrLit ''End User'')] [],
     SetAttr user [inBoundary] (Atom (Name internet)),
     SetAttr user [description] (Atom (StrLit ''Gym app user that registers, logs in and manages personal workouts.'')),
     New coach Actor [Atom (StrLit ''Coach / Admin'')] [],
     SetAttr coach [inBoundary] (Atom (Name internet)),
     SetAttr coach [description] (Atom (StrLit ''Coach with elevated permissions to manage users, exercises and classes.''))]"

text \<open>Servers (lines 50 to 73). \<open>x.controls.f = v\<close> is an assignment at the path \<open>[controls, f]\<close>.\<close>

definition servers :: "stmt list" where
  "servers =
    [New frontend Server [Atom (StrLit ''Web Frontend (HTML/JS)'')] [],
     SetAttr frontend [inBoundary] (Atom (Name internet)),
     SetAttr frontend [OS] (Atom (StrLit ''Browser'')),
     SetAttr frontend [description] (Atom (StrLit ''Static HTML/CSS/JS served to the user browser.'')),
     SetAttr frontend [controls, sanitizesInput] (Atom (BoolLit False)),
     SetAttr frontend [controls, encodesOutput] (Atom (BoolLit True)),
     New api_server Server [Atom (StrLit ''Node.js Express API'')] [],
     SetAttr api_server [inBoundary] (Atom (Name app_boundary)),
     SetAttr api_server [OS] (Atom (StrLit ''Linux'')),
     SetAttr api_server [description] (Atom (StrLit ''Node.js/Express backend defined in Server.js. Handles routes /users, /exercises, /clases and renders views.'')),
     SetAttr api_server [controls, isHardened] (Atom (BoolLit False)),
     SetAttr api_server [controls, sanitizesInput] (Atom (BoolLit True)),
     SetAttr api_server [controls, encodesOutput] (Atom (BoolLit True)),
     SetAttr api_server [controls, authorizesSource] (Atom (BoolLit True)),
     SetAttr api_server [sourceFiles] (ListOf [StrLit ''BACK/Controllers/Router.js'', StrLit ''BACK/Controllers/User.js'', StrLit ''BACK/Controllers/Exercises.js'', StrLit ''BACK/Controllers/Clases.js''])]"

text \<open>The datastore (lines 77 to 87).\<close>

definition datastores :: "stmt list" where
  "datastores =
    [New app_db Datastore [Atom (StrLit ''MongoDB Atlas - App Database'')] [],
     SetAttr app_db [inBoundary] (Atom (Name cloud_db_boundary)),
     SetAttr app_db [OS] (Atom (StrLit ''MongoDB Atlas'')),
     SetAttr app_db [type] (Atom (Member ''DatastoreType'' ''SQL'')),
     SetAttr app_db [inScope] (Atom (BoolLit True)),
     SetAttr app_db [controls, isHardened] (Atom (BoolLit True)),
     SetAttr app_db [maxClassification] (Atom (Member ''Classification'' ''RESTRICTED'')),
     SetAttr app_db [storesPII] (Atom (BoolLit True)),
     SetAttr app_db [storesSensitiveData] (Atom (BoolLit True)),
     SetAttr app_db [port] (Atom (IntLit 27017)),
     SetAttr app_db [protocol] (Atom (StrLit ''TLS over TCP''))]"

text \<open>Data objects (lines 91 to 121). The last one passes all its attributes as keywords.\<close>

definition data_objects :: "stmt list" where
  "data_objects =
    [New credentials Data [Atom (StrLit ''User Credentials'')] [],
     SetAttr credentials [description] (Atom (StrLit ''Email and password used to authenticate users and coaches.'')),
     SetAttr credentials [classification] (Atom (Member ''Classification'' ''SENSITIVE'')),
     SetAttr credentials [isPII] (Atom (BoolLit True)),
     SetAttr credentials [isStored] (Atom (BoolLit True)),
     SetAttr credentials [isDestEncryptedAtRest] (Atom (BoolLit True)),
     New profile_data Data [Atom (StrLit ''User Profile Data'')] [],
     SetAttr profile_data [description] (Atom (StrLit ''User and coach profile data (name, email, role, BMI, etc.).'')),
     SetAttr profile_data [classification] (Atom (Member ''Classification'' ''RESTRICTED'')),
     SetAttr profile_data [isPII] (Atom (BoolLit True)),
     SetAttr profile_data [isStored] (Atom (BoolLit True)),
     SetAttr profile_data [isDestEncryptedAtRest] (Atom (BoolLit True)),
     New workout_data Data [Atom (StrLit ''Workout and Routine Data'')] [],
     SetAttr workout_data [description] (Atom (StrLit ''Exercises, routines, goals, progress records.'')),
     SetAttr workout_data [classification] (Atom (Member ''Classification'' ''SENSITIVE'')),
     SetAttr workout_data [isStored] (Atom (BoolLit True)),
     SetAttr workout_data [isDestEncryptedAtRest] (Atom (BoolLit True)),
     New class_schedule Data [Atom (StrLit ''Class Schedule Data'')] [],
     SetAttr class_schedule [description] (Atom (StrLit ''Classes, schedules, coach assignments.'')),
     SetAttr class_schedule [classification] (Atom (Member ''Classification'' ''SENSITIVE'')),
     SetAttr class_schedule [isStored] (Atom (BoolLit True)),
     SetAttr class_schedule [isDestEncryptedAtRest] (Atom (BoolLit True)),
     New session_token Data [] [(name, Atom (StrLit ''Session / Auth Token'')), (description, Atom (StrLit ''Session cookie or JWT used to maintain authenticated sessions.'')), (classification, Atom (Member ''Classification'' ''SENSITIVE''))]]"

text \<open>Dataflows between the users and the frontend (lines 125 to 139).\<close>

definition flows_user_frontend :: "stmt list" where
  "flows_user_frontend =
    [New user_to_frontend Dataflow [Atom (Name user), Atom (Name frontend), Atom (StrLit ''HTTP(S) Requests from User'')] [],
     SetAttr user_to_frontend [protocol] (Atom (StrLit ''HTTPS'')),
     SetAttr user_to_frontend [dstPort] (Atom (IntLit 443)),
     New frontend_to_user Dataflow [Atom (Name frontend), Atom (Name user), Atom (StrLit ''HTML/JS/CSS Responses to User'')] [],
     SetAttr frontend_to_user [protocol] (Atom (StrLit ''HTTPS'')),
     SetAttr frontend_to_user [dstPort] (Atom (IntLit 443)),
     New coach_to_frontend Dataflow [Atom (Name coach), Atom (Name frontend), Atom (StrLit ''HTTP(S) Requests from Coach/Admin'')] [],
     SetAttr coach_to_frontend [protocol] (Atom (StrLit ''HTTPS'')),
     SetAttr coach_to_frontend [dstPort] (Atom (IntLit 443)),
     New frontend_to_coach Dataflow [Atom (Name frontend), Atom (Name coach), Atom (StrLit ''HTML/JS/CSS Responses to Coach/Admin'')] [],
     SetAttr frontend_to_coach [protocol] (Atom (StrLit ''HTTPS'')),
     SetAttr frontend_to_coach [dstPort] (Atom (IntLit 443))]"

text \<open>Dataflows between the frontend and the API server (lines 143 to 154).\<close>

definition flows_frontend_api :: "stmt list" where
  "flows_frontend_api =
    [New frontend_to_api Dataflow [Atom (Name frontend), Atom (Name api_server), Atom (StrLit ''API Calls (login, register, CRUD)'')] [],
     SetAttr frontend_to_api [protocol] (Atom (StrLit ''HTTPS'')),
     SetAttr frontend_to_api [dstPort] (Atom (IntLit 443)),
     SetAttr frontend_to_api [tlsVersion] (Atom (Member ''TLSVersion'' ''TLSv12'')),
     SetAttr frontend_to_api [data] (ListOf [Name credentials, Name profile_data, Name workout_data, Name class_schedule, Name session_token]),
     SetAttr frontend_to_api [usesSessionTokens] (Atom (BoolLit True)),
     New api_to_frontend Dataflow [Atom (Name api_server), Atom (Name frontend), Atom (StrLit ''API Responses (JSON / HTML)'')] [],
     SetAttr api_to_frontend [protocol] (Atom (StrLit ''HTTPS'')),
     SetAttr api_to_frontend [dstPort] (Atom (IntLit 443)),
     SetAttr api_to_frontend [tlsVersion] (Atom (Member ''TLSVersion'' ''TLSv12'')),
     SetAttr api_to_frontend [data] (ListOf [Name profile_data, Name workout_data, Name class_schedule, Name session_token])]"

text \<open>Dataflows between the API server and the datastore (lines 158 to 196).\<close>

definition flows_api_db :: "stmt list" where
  "flows_api_db =
    [New api_to_db_auth Dataflow [Atom (Name api_server), Atom (Name app_db), Atom (StrLit ''Store / Read Credentials'')] [],
     SetAttr api_to_db_auth [protocol] (Atom (StrLit ''TLS'')),
     SetAttr api_to_db_auth [dstPort] (Atom (IntLit 27017)),
     SetAttr api_to_db_auth [data] (Atom (Name credentials)),
     New db_to_api_auth Dataflow [Atom (Name app_db), Atom (Name api_server), Atom (StrLit ''Return Credentials / Auth Data'')] [],
     SetAttr db_to_api_auth [protocol] (Atom (StrLit ''TLS'')),
     SetAttr db_to_api_auth [dstPort] (Atom (IntLit 27017)),
     SetAttr db_to_api_auth [data] (Atom (Name credentials)),
     New api_to_db_profile Dataflow [Atom (Name api_server), Atom (Name app_db), Atom (StrLit ''Store / Read User Profiles'')] [],
     SetAttr api_to_db_profile [protocol] (Atom (StrLit ''TLS'')),
     SetAttr api_to_db_profile [dstPort] (Atom (IntLit 27017)),
     SetAttr api_to_db_profile [data] (Atom (Name profile_data)),
     New db_to_api_profile Dataflow [Atom (Name app_db), Atom (Name api_server), Atom (StrLit ''Return User Profiles'')] [],
     SetAttr db_to_api_profile [protocol] (Atom (StrLit ''TLS'')),
     SetAttr db_to_api_profile [dstPort] (Atom (IntLit 27017)),
     SetAttr db_to_api_profile [data] (Atom (Name profile_data)),
     New api_to_db_workouts Dataflow [Atom (Name api_server), Atom (Name app_db), Atom (StrLit ''CRUD Workouts and Routines'')] [],
     SetAttr api_to_db_workouts [protocol] (Atom (StrLit ''TLS'')),
     SetAttr api_to_db_workouts [dstPort] (Atom (IntLit 27017)),
     SetAttr api_to_db_workouts [data] (Atom (Name workout_data)),
     New db_to_api_workouts Dataflow [Atom (Name app_db), Atom (Name api_server), Atom (StrLit ''Return Workouts and Routines'')] [],
     SetAttr db_to_api_workouts [protocol] (Atom (StrLit ''TLS'')),
     SetAttr db_to_api_workouts [dstPort] (Atom (IntLit 27017)),
     SetAttr db_to_api_workouts [data] (Atom (Name workout_data)),
     New api_to_db_classes Dataflow [Atom (Name api_server), Atom (Name app_db), Atom (StrLit ''CRUD Classes and Schedules'')] [],
     SetAttr api_to_db_classes [protocol] (Atom (StrLit ''TLS'')),
     SetAttr api_to_db_classes [dstPort] (Atom (IntLit 27017)),
     SetAttr api_to_db_classes [data] (Atom (Name class_schedule)),
     New db_to_api_classes Dataflow [Atom (Name app_db), Atom (Name api_server), Atom (StrLit ''Return Classes and Schedules'')] [],
     SetAttr db_to_api_classes [protocol] (Atom (StrLit ''TLS'')),
     SetAttr db_to_api_classes [dstPort] (Atom (IntLit 27017)),
     SetAttr db_to_api_classes [data] (Atom (Name class_schedule))]"

text \<open>The session token is linked to the flows and the server that handle it (lines 199 to 203).\<close>

definition token_links :: "stmt list" where
  "token_links =
    [SetAttr session_token [traverses] (ListOf [Name frontend_to_api, Name api_to_frontend]),
     SetAttr session_token [processedBy] (ListOf [Name api_server])]"

text \<open>The guarded call of the processor (lines 205 and 206).\<close>

definition main_guard :: "stmt list" where
  "main_guard =
    [IfMain [Call tm process]]"

text \<open>The module: the declarations in source order, then the guarded call.\<close>

definition declarations :: "stmt list" where
  "declarations =
     model_decl @ boundaries @ actors @ servers @ datastores @ data_objects @
     flows_user_frontend @ flows_frontend_api @ flows_api_db @ token_links"

definition script :: "stmt list" where
  "script = declarations @ main_guard"

text \<open>
  A run of the whole module from the empty state, what it leaves on the heap and what it
  did; a run that raises leaves nothing to look at.
\<close>

definition run :: "bool \<Rightarrow> error + state" where
  "run main = exec_all main script init"

definition completes :: "bool \<Rightarrow> bool" where
  "completes main = (case run main of Inl e \<Rightarrow> False | Inr s \<Rightarrow> True)"

definition graph :: "bool \<Rightarrow> obj list" where
  "graph main = (case run main of Inl e \<Rightarrow> [] | Inr s \<Rightarrow> heap s)"

definition trace :: "bool \<Rightarrow> event list" where
  "trace main = (case run main of Inl e \<Rightarrow> [] | Inr s \<Rightarrow> log s)"

text \<open>
  What the declarations build, written out: the bindings (latest first), the objects in
  creation order (the position of an object is its address) and the events in the order
  they happen. That the statements produce exactly this is \<open>exec_declarations\<close> below.
\<close>

definition built_env :: "(var \<times> addr) list" where
  "built_env =
    [(db_to_api_classes, 27), (api_to_db_classes, 26), (db_to_api_workouts, 25),
     (api_to_db_workouts, 24), (db_to_api_profile, 23), (api_to_db_profile, 22),
     (db_to_api_auth, 21), (api_to_db_auth, 20), (api_to_frontend, 19),
     (frontend_to_api, 18), (frontend_to_coach, 17), (coach_to_frontend, 16),
     (frontend_to_user, 15), (user_to_frontend, 14), (session_token, 13),
     (class_schedule, 12), (workout_data, 11), (profile_data, 10), (credentials, 9),
     (app_db, 8), (api_server, 7), (frontend, 6), (coach, 5), (user, 4),
     (cloud_db_boundary, 3), (app_boundary, 2), (internet, 1), (tm, 0)]"

definition built_graph :: "obj list" where
  "built_graph =
    [\<lparr>cls = TM,
        attrs =
          [([name], VStr ''GymCoach App Threat Model''),
           ([description],
            VStr ''Web application for users and coaches to manage workouts, classes and progress. Architecture: HTML/JS frontend served by a Node.js/Express backend with MongoDB Atlas.''),
           ([isOrdered], VBool True),
           ([mergeResponses], VBool True),
           ([assumptions],
            VList
             [VStr ''All external traffic to the application is over HTTPS through a cloud provider (e.g. Render/Heroku/Nginx).'',
              VStr ''MongoDB Atlas is configured with authentication and network access control (IP allow-list / VPC peering).'',
              VStr ''Passwords are stored hashed and never in plaintext.'',
              VStr ''Admins/coaches use the same web interface but have elevated privileges managed by application roles.''])]\<rparr>,
     \<lparr>cls = Boundary,
        attrs =
          [([name], VStr ''Internet'')]\<rparr>,
     \<lparr>cls = Boundary,
        attrs =
          [([name], VStr ''Application Boundary'')]\<rparr>,
     \<lparr>cls = Boundary,
        attrs =
          [([name], VStr ''MongoDB Atlas Boundary'')]\<rparr>,
     \<lparr>cls = Actor,
        attrs =
          [([name], VStr ''End User''),
           ([inBoundary], VRef 1),
           ([description], VStr ''Gym app user that registers, logs in and manages personal workouts.'')]\<rparr>,
     \<lparr>cls = Actor,
        attrs =
          [([name], VStr ''Coach / Admin''),
           ([inBoundary], VRef 1),
           ([description],
            VStr ''Coach with elevated permissions to manage users, exercises and classes.'')]\<rparr>,
     \<lparr>cls = Server,
        attrs =
          [([name], VStr ''Web Frontend (HTML/JS)''),
           ([inBoundary], VRef 1),
           ([OS], VStr ''Browser''),
           ([description], VStr ''Static HTML/CSS/JS served to the user browser.''),
           ([controls, sanitizesInput], VBool False),
           ([controls, encodesOutput], VBool True)]\<rparr>,
     \<lparr>cls = Server,
        attrs =
          [([name], VStr ''Node.js Express API''),
           ([inBoundary], VRef 2),
           ([OS], VStr ''Linux''),
           ([description],
            VStr ''Node.js/Express backend defined in Server.js. Handles routes /users, /exercises, /clases and renders views.''),
           ([controls, isHardened], VBool False),
           ([controls, sanitizesInput], VBool True),
           ([controls, encodesOutput], VBool True),
           ([controls, authorizesSource], VBool True),
           ([sourceFiles],
            VList
             [VStr ''BACK/Controllers/Router.js'',
              VStr ''BACK/Controllers/User.js'',
              VStr ''BACK/Controllers/Exercises.js'',
              VStr ''BACK/Controllers/Clases.js''])]\<rparr>,
     \<lparr>cls = Datastore,
        attrs =
          [([name], VStr ''MongoDB Atlas - App Database''),
           ([inBoundary], VRef 3),
           ([OS], VStr ''MongoDB Atlas''),
           ([type], VEnum ''DatastoreType'' ''SQL''),
           ([inScope], VBool True),
           ([controls, isHardened], VBool True),
           ([maxClassification], VEnum ''Classification'' ''RESTRICTED''),
           ([storesPII], VBool True),
           ([storesSensitiveData], VBool True),
           ([port], VInt 27017),
           ([protocol], VStr ''TLS over TCP'')]\<rparr>,
     \<lparr>cls = Data,
        attrs =
          [([name], VStr ''User Credentials''),
           ([description], VStr ''Email and password used to authenticate users and coaches.''),
           ([classification], VEnum ''Classification'' ''SENSITIVE''),
           ([isPII], VBool True),
           ([isStored], VBool True),
           ([isDestEncryptedAtRest], VBool True)]\<rparr>,
     \<lparr>cls = Data,
        attrs =
          [([name], VStr ''User Profile Data''),
           ([description], VStr ''User and coach profile data (name, email, role, BMI, etc.).''),
           ([classification], VEnum ''Classification'' ''RESTRICTED''),
           ([isPII], VBool True),
           ([isStored], VBool True),
           ([isDestEncryptedAtRest], VBool True)]\<rparr>,
     \<lparr>cls = Data,
        attrs =
          [([name], VStr ''Workout and Routine Data''),
           ([description], VStr ''Exercises, routines, goals, progress records.''),
           ([classification], VEnum ''Classification'' ''SENSITIVE''),
           ([isStored], VBool True),
           ([isDestEncryptedAtRest], VBool True)]\<rparr>,
     \<lparr>cls = Data,
        attrs =
          [([name], VStr ''Class Schedule Data''),
           ([description], VStr ''Classes, schedules, coach assignments.''),
           ([classification], VEnum ''Classification'' ''SENSITIVE''),
           ([isStored], VBool True),
           ([isDestEncryptedAtRest], VBool True)]\<rparr>,
     \<lparr>cls = Data,
        attrs =
          [([name], VStr ''Session / Auth Token''),
           ([description], VStr ''Session cookie or JWT used to maintain authenticated sessions.''),
           ([classification], VEnum ''Classification'' ''SENSITIVE''),
           ([traverses], VList [VRef 18, VRef 19]),
           ([processedBy], VList [VRef 7])]\<rparr>,
     \<lparr>cls = Dataflow,
        attrs =
          [([source], VRef 4),
           ([destination], VRef 6),
           ([name], VStr ''HTTP(S) Requests from User''),
           ([protocol], VStr ''HTTPS''),
           ([dstPort], VInt 443)]\<rparr>,
     \<lparr>cls = Dataflow,
        attrs =
          [([source], VRef 6),
           ([destination], VRef 4),
           ([name], VStr ''HTML/JS/CSS Responses to User''),
           ([protocol], VStr ''HTTPS''),
           ([dstPort], VInt 443)]\<rparr>,
     \<lparr>cls = Dataflow,
        attrs =
          [([source], VRef 5),
           ([destination], VRef 6),
           ([name], VStr ''HTTP(S) Requests from Coach/Admin''),
           ([protocol], VStr ''HTTPS''),
           ([dstPort], VInt 443)]\<rparr>,
     \<lparr>cls = Dataflow,
        attrs =
          [([source], VRef 6),
           ([destination], VRef 5),
           ([name], VStr ''HTML/JS/CSS Responses to Coach/Admin''),
           ([protocol], VStr ''HTTPS''),
           ([dstPort], VInt 443)]\<rparr>,
     \<lparr>cls = Dataflow,
        attrs =
          [([source], VRef 6),
           ([destination], VRef 7),
           ([name], VStr ''API Calls (login, register, CRUD)''),
           ([protocol], VStr ''HTTPS''),
           ([dstPort], VInt 443),
           ([tlsVersion], VEnum ''TLSVersion'' ''TLSv12''),
           ([data], VList [VRef 9, VRef 10, VRef 11, VRef 12, VRef 13]),
           ([usesSessionTokens], VBool True)]\<rparr>,
     \<lparr>cls = Dataflow,
        attrs =
          [([source], VRef 7),
           ([destination], VRef 6),
           ([name], VStr ''API Responses (JSON / HTML)''),
           ([protocol], VStr ''HTTPS''),
           ([dstPort], VInt 443),
           ([tlsVersion], VEnum ''TLSVersion'' ''TLSv12''),
           ([data], VList [VRef 10, VRef 11, VRef 12, VRef 13])]\<rparr>,
     \<lparr>cls = Dataflow,
        attrs =
          [([source], VRef 7),
           ([destination], VRef 8),
           ([name], VStr ''Store / Read Credentials''),
           ([protocol], VStr ''TLS''),
           ([dstPort], VInt 27017),
           ([data], VRef 9)]\<rparr>,
     \<lparr>cls = Dataflow,
        attrs =
          [([source], VRef 8),
           ([destination], VRef 7),
           ([name], VStr ''Return Credentials / Auth Data''),
           ([protocol], VStr ''TLS''),
           ([dstPort], VInt 27017),
           ([data], VRef 9)]\<rparr>,
     \<lparr>cls = Dataflow,
        attrs =
          [([source], VRef 7),
           ([destination], VRef 8),
           ([name], VStr ''Store / Read User Profiles''),
           ([protocol], VStr ''TLS''),
           ([dstPort], VInt 27017),
           ([data], VRef 10)]\<rparr>,
     \<lparr>cls = Dataflow,
        attrs =
          [([source], VRef 8),
           ([destination], VRef 7),
           ([name], VStr ''Return User Profiles''),
           ([protocol], VStr ''TLS''),
           ([dstPort], VInt 27017),
           ([data], VRef 10)]\<rparr>,
     \<lparr>cls = Dataflow,
        attrs =
          [([source], VRef 7),
           ([destination], VRef 8),
           ([name], VStr ''CRUD Workouts and Routines''),
           ([protocol], VStr ''TLS''),
           ([dstPort], VInt 27017),
           ([data], VRef 11)]\<rparr>,
     \<lparr>cls = Dataflow,
        attrs =
          [([source], VRef 8),
           ([destination], VRef 7),
           ([name], VStr ''Return Workouts and Routines''),
           ([protocol], VStr ''TLS''),
           ([dstPort], VInt 27017),
           ([data], VRef 11)]\<rparr>,
     \<lparr>cls = Dataflow,
        attrs =
          [([source], VRef 7),
           ([destination], VRef 8),
           ([name], VStr ''CRUD Classes and Schedules''),
           ([protocol], VStr ''TLS''),
           ([dstPort], VInt 27017),
           ([data], VRef 12)]\<rparr>,
     \<lparr>cls = Dataflow,
        attrs =
          [([source], VRef 8),
           ([destination], VRef 7),
           ([name], VStr ''Return Classes and Schedules''),
           ([protocol], VStr ''TLS''),
           ([dstPort], VInt 27017),
           ([data], VRef 12)]\<rparr>]"

definition built_log :: "event list" where
  "built_log =
    [Created 0, Assigned 0 [description], Assigned 0 [isOrdered], Assigned 0 [mergeResponses],
     Assigned 0 [assumptions],
     Created 1,
     Created 2,
     Created 3,
     Created 4, Assigned 4 [inBoundary], Assigned 4 [description],
     Created 5, Assigned 5 [inBoundary], Assigned 5 [description],
     Created 6, Assigned 6 [inBoundary], Assigned 6 [OS], Assigned 6 [description],
     Assigned 6 [controls, sanitizesInput], Assigned 6 [controls, encodesOutput],
     Created 7, Assigned 7 [inBoundary], Assigned 7 [OS], Assigned 7 [description],
     Assigned 7 [controls, isHardened], Assigned 7 [controls, sanitizesInput],
     Assigned 7 [controls, encodesOutput], Assigned 7 [controls, authorizesSource],
     Assigned 7 [sourceFiles],
     Created 8, Assigned 8 [inBoundary], Assigned 8 [OS], Assigned 8 [type],
     Assigned 8 [inScope], Assigned 8 [controls, isHardened], Assigned 8 [maxClassification],
     Assigned 8 [storesPII], Assigned 8 [storesSensitiveData], Assigned 8 [port],
     Assigned 8 [protocol],
     Created 9, Assigned 9 [description], Assigned 9 [classification], Assigned 9 [isPII],
     Assigned 9 [isStored], Assigned 9 [isDestEncryptedAtRest],
     Created 10, Assigned 10 [description], Assigned 10 [classification], Assigned 10 [isPII],
     Assigned 10 [isStored], Assigned 10 [isDestEncryptedAtRest],
     Created 11, Assigned 11 [description], Assigned 11 [classification], Assigned 11 [isStored],
     Assigned 11 [isDestEncryptedAtRest],
     Created 12, Assigned 12 [description], Assigned 12 [classification], Assigned 12 [isStored],
     Assigned 12 [isDestEncryptedAtRest],
     Created 13,
     Created 14, Assigned 14 [protocol], Assigned 14 [dstPort],
     Created 15, Assigned 15 [protocol], Assigned 15 [dstPort],
     Created 16, Assigned 16 [protocol], Assigned 16 [dstPort],
     Created 17, Assigned 17 [protocol], Assigned 17 [dstPort],
     Created 18, Assigned 18 [protocol], Assigned 18 [dstPort], Assigned 18 [tlsVersion],
     Assigned 18 [data], Assigned 18 [usesSessionTokens],
     Created 19, Assigned 19 [protocol], Assigned 19 [dstPort], Assigned 19 [tlsVersion],
     Assigned 19 [data],
     Created 20, Assigned 20 [protocol], Assigned 20 [dstPort], Assigned 20 [data],
     Created 21, Assigned 21 [protocol], Assigned 21 [dstPort], Assigned 21 [data],
     Created 22, Assigned 22 [protocol], Assigned 22 [dstPort], Assigned 22 [data],
     Created 23, Assigned 23 [protocol], Assigned 23 [dstPort], Assigned 23 [data],
     Created 24, Assigned 24 [protocol], Assigned 24 [dstPort], Assigned 24 [data],
     Created 25, Assigned 25 [protocol], Assigned 25 [dstPort], Assigned 25 [data],
     Created 26, Assigned 26 [protocol], Assigned 26 [dstPort], Assigned 26 [data],
     Created 27, Assigned 27 [protocol], Assigned 27 [dstPort], Assigned 27 [data],
     Assigned 13 [traverses], Assigned 13 [processedBy]]"

definition built :: state where
  "built = \<lparr>env = built_env, heap = built_graph, log = built_log\<rparr>"

subsection \<open>Vocabulary of the properties\<close>

text \<open>The addresses a value refers to: the value itself, or the elements of a list.\<close>

fun refs :: "val \<Rightarrow> addr list" where
  "refs (VRef a) = [a]"
| "refs (VList vs) = concat (map refs vs)"
| "refs v = []"

text \<open>Statements that only construct an entity or assign an attribute.\<close>

fun is_decl :: "stmt \<Rightarrow> bool" where
  "is_decl (New x k args kws) = True"
| "is_decl (SetAttr x p e) = True"
| "is_decl c = False"

text \<open>
  The externally visible part of a log: the calls of the library's processor. Constructing
  an object and assigning an attribute only change the heap.
\<close>

fun is_call :: "event \<Rightarrow> bool" where
  "is_call (Processed a) = True"
| "is_call e = False"

definition emitted :: "event list \<Rightarrow> event list" where
  "emitted es = filter is_call es"

text \<open>The addresses created, in order, and what happens after the first processor call.\<close>

fun created :: "event list \<Rightarrow> addr list" where
  "created [] = []"
| "created (Created a # es) = a # created es"
| "created (e # es) = created es"

fun after_call :: "event list \<Rightarrow> event list" where
  "after_call [] = []"
| "after_call (Processed a # es) = es"
| "after_call (e # es) = after_call es"

text \<open>
  An assignment immediately follows the construction of its entity when only assignments
  to that same entity lie between the two. \<open>stray cur es\<close> collects the assignments of \<open>es\<close>
  that do not, \<open>cur\<close> being the entity whose block of assignments is still open.
\<close>

fun stray :: "addr option \<Rightarrow> event list \<Rightarrow> event list" where
  "stray cur [] = []"
| "stray cur (Created a # es) = stray (Some a) es"
| "stray cur (Assigned a p # es) =
     (if cur = Some a then stray cur es else Assigned a p # stray None es)"
| "stray cur (Processed a # es) = stray None es"

text \<open>
  Modelled from the spec: the library's \<open>Classification\<close> enumeration is not under src/.
  The spec gives it as a fixed ordered enumeration and names the levels
  \<open>PUBLIC < SENSITIVE < RESTRICTED\<close>; the list is in that order.
\<close>

definition Classification_levels :: "string list" where
  "Classification_levels = [''PUBLIC'', ''SENSITIVE'', ''RESTRICTED'']"


section \<open>Running the script\<close>

text \<open>
  The texts of the literals are never inspected by the interpreter, so the simplifier is
  told not to descend into them.
\<close>

lemma VStr_cong: "VStr s = VStr s"
  by (rule refl)

lemma exec_all_append:
  "exec_all main (cs @ ds) s =
     (case exec_all main cs s of Inl e \<Rightarrow> Inl e | Inr s' \<Rightarrow> exec_all main ds s')"
  by (induction cs arbitrary: s) (auto split: sum.splits)

text \<open>The declarations run to completion, whatever the run mode, and build \<open>built\<close>.\<close>

lemma exec_declarations: "exec_all main declarations init = Inr built"
  by code_simp

lemma tm_bound: "map_of built_env tm = Some 0"
  by (simp add: built_env_def)

lemma length_built_graph: "length built_graph = 28"
  by (simp add: built_graph_def)

lemma cls_tm: "cls (built_graph ! 0) = TM"
  by (simp add: built_graph_def)

text \<open>The whole module: run as a program it ends with the processor call, imported it does not.\<close>

lemma run_eq:
  "run main = Inr (if main then built\<lparr>log := built_log @ [Processed 0]\<rparr> else built)"
  by (simp add: run_def script_def exec_all_append exec_declarations main_guard_def built_def
      tm_bound cls_tm)

lemma completes_eq: "completes main"
  by (simp add: completes_def run_eq)

lemma graph_eq: "graph main = built_graph"
  by (simp add: graph_def run_eq built_def)

lemma trace_eq: "trace main = built_log @ (if main then [Processed 0] else [])"
  by (simp add: trace_def run_eq built_def)

lemma all_below: "(\<forall>a<n. P a) = (\<forall>a \<in> set [0..<n]. P a)"
  by auto

lemma upt_28:
  "[0..<28] =
     [0, 1, 2, 3, 4, 5, 6, 7, 8, 9, 10, 11, 12, 13, 14, 15, 16, 17, 18, 19, 20, 21, 22, 23, 24,
      25, 26, 27 :: nat]"
  by (simp add: upt_conv_Cons)

lemma length_declarations: "length declarations = 120"
  by (simp add: declarations_def model_decl_def boundaries_def actors_def servers_def
      datastores_def data_objects_def flows_user_frontend_def flows_frontend_api_def
      flows_api_db_def token_links_def)

lemma declarations_decl: "list_all is_decl declarations"
  by (simp add: declarations_def model_decl_def boundaries_def actors_def servers_def
      datastores_def data_objects_def flows_user_frontend_def flows_frontend_api_def
      flows_api_db_def token_links_def)

text \<open>
  A constructor call or an attribute assignment adds nothing to the externally visible
  part of the log, from any state; hence neither does any sequence of them.
\<close>

lemma exec_decl_emitted:
  "is_decl c \<Longrightarrow> exec main c s = Inr s' \<Longrightarrow> emitted (log s') = emitted (log s)"
  by (cases c) (auto simp: emitted_def split: sum.splits option.splits)

lemma exec_all_decl_emitted:
  "list_all is_decl cs \<Longrightarrow> exec_all main cs s = Inr s' \<Longrightarrow> emitted (log s') = emitted (log s)"
proof (induction cs arbitrary: s)
  case Nil
  then show ?case by simp
next
  case (Cons c cs)
  from Cons.prems obtain s1
    where s1: "exec main c s = Inr s1" and rest: "exec_all main cs s1 = Inr s'"
    by (auto split: sum.splits)
  from Cons.prems have "is_decl c" and "list_all is_decl cs" by simp_all
  with s1 rest Cons.IH show ?case
    by (simp add: exec_decl_emitted)
qed

section \<open>Properties of the declared model\<close>

subsection \<open>Lifecycle of the entities\<close>

text \<open>
  C1, as stated: every attribute assignment immediately follows the construction of the
  entity it assigns to, so a run leaves no stray assignment. This fails: run as a program,
  the script makes assignments that do not follow the construction of their entity.
\<close>

theorem late_assignment_counterexample:
  "completes True \<and> stray None (trace True) \<noteq> []"
  by (simp add: completes_eq trace_eq built_log_def)

text \<open>
  C1, amended: in either run mode every entity is created exactly once, at the next free
  address; every attribute assignment immediately follows the construction of its entity
  except two, \<open>traverses\<close> and \<open>processedBy\<close> of the session token (the Data object at address
  13), which are made after every object, the dataflows they refer to among them, has been
  created; and nothing is created or assigned after the processor call.
\<close>

theorem assignments_follow_construction_except_token:
  "completes main \<and>
   created (trace main) = [0..<length (graph main)] \<and>
   stray None (trace main) = [Assigned 13 [traverses], Assigned 13 [processedBy]] \<and>
   created (takeWhile (\<lambda>e. e \<noteq> Assigned 13 [traverses]) (trace main)) =
     [0..<length (graph main)] \<and>
   cls (graph main ! 13) = Data \<and>
   attr [name] (graph main ! 13) = Some (VStr ''Session / Auth Token'') \<and>
   after_call (trace main) = []"
  unfolding graph_eq length_built_graph upt_28
  by (cases main)
     (simp_all add: completes_eq trace_eq built_log_def built_graph_def attr_def cong: VStr_cong)

subsection \<open>The datastore\<close>

text \<open>
  C2: the store type of the single datastore, "MongoDB Atlas - App Database", should be the
  document-store member of the library's enumeration. What the script assigns on line 80 is
  \<open>DatastoreType.SQL\<close>, next to the comment "MongoDB is a document store".
\<close>

theorem datastore_type_is_SQL:
  "completes main \<and>
   map (\<lambda>d. (attr [name] d, attr [type] d)) (filter (\<lambda>d. cls d = Datastore) (graph main)) =
     [(Some (VStr ''MongoDB Atlas - App Database''), Some (VEnum ''DatastoreType'' ''SQL''))]"
  unfolding graph_eq
  by (simp add: completes_eq built_graph_def attr_def cong: VStr_cong)

text \<open>
  C3: every Dataflow whose source or destination is the datastore carries the destination
  port 27017, which is also the port assigned to the datastore itself.
\<close>

theorem datastore_flows_port_27017:
  "completes main \<and>
   (\<forall>f \<in> set (graph main). \<forall>d < length (graph main).
      cls f = Dataflow \<and> cls (graph main ! d) = Datastore \<and>
      (attr [source] f = Some (VRef d) \<or> attr [destination] f = Some (VRef d)) \<longrightarrow>
      attr [dstPort] f = Some (VInt 27017) \<and> attr [port] (graph main ! d) = Some (VInt 27017))"
  unfolding graph_eq length_built_graph all_below upt_28
  by (simp add: completes_eq built_graph_def attr_def cong: VStr_cong)

theorem datastore_flows_port_27017_witness:
  "graph True ! 21 \<in> set (graph True) \<and> 8 < length (graph True) \<and>
   cls (graph True ! 21) = Dataflow \<and> cls (graph True ! 8) = Datastore \<and>
   attr [source] (graph True ! 21) = Some (VRef 8) \<and>
   attr [dstPort] (graph True ! 21) = Some (VInt 27017) \<and>
   attr [port] (graph True ! 8) = Some (VInt 27017)"
proof -
  have len: "21 < length (graph True)" "8 < length (graph True)"
    by (simp_all add: graph_eq length_built_graph)
  have mem: "graph True ! 21 \<in> set (graph True)"
    using len(1) by (rule nth_mem)
  have hyp: "cls (graph True ! 21) = Dataflow" "cls (graph True ! 8) = Datastore"
    "attr [source] (graph True ! 21) = Some (VRef 8)"
    by (simp_all add: graph_eq built_graph_def attr_def cong: VStr_cong)
  from datastore_flows_port_27017 [of True] mem len(2) hyp
  have "attr [dstPort] (graph True ! 21) = Some (VInt 27017) \<and>
        attr [port] (graph True ! 8) = Some (VInt 27017)"
    by blast
  with mem len(2) hyp show ?thesis by simp
qed

subsection \<open>Endpoints and data of the dataflows\<close>

text \<open>
  C4: every Dataflow has a source and a destination, both of them objects created before
  the Dataflow (addresses are handed out in creation order) and each an Actor, a Server or
  a Datastore.
\<close>

theorem dataflow_endpoints_declared:
  "completes main \<and>
   (\<forall>f < length (graph main). cls (graph main ! f) = Dataflow \<longrightarrow>
      (\<exists>a b. attr [source] (graph main ! f) = Some (VRef a) \<and>
             attr [destination] (graph main ! f) = Some (VRef b) \<and>
             a < f \<and> b < f \<and>
             cls (graph main ! a) \<in> {Actor, Server, Datastore} \<and>
             cls (graph main ! b) \<in> {Actor, Server, Datastore}))"
  unfolding graph_eq length_built_graph all_below upt_28
  by (simp add: completes_eq built_graph_def attr_def cong: VStr_cong)

theorem dataflow_endpoints_declared_witness:
  "14 < length (graph True) \<and> cls (graph True ! 14) = Dataflow \<and>
   attr [source] (graph True ! 14) = Some (VRef 4) \<and>
   attr [destination] (graph True ! 14) = Some (VRef 6) \<and>
   cls (graph True ! 4) \<in> {Actor, Server, Datastore} \<and>
   cls (graph True ! 6) \<in> {Actor, Server, Datastore}"
proof -
  have hyp: "14 < length (graph True)" "cls (graph True ! 14) = Dataflow"
    by (simp_all add: graph_eq built_graph_def cong: VStr_cong)
  with dataflow_endpoints_declared [of True] obtain a b
    where ab: "attr [source] (graph True ! 14) = Some (VRef a)"
      "attr [destination] (graph True ! 14) = Some (VRef b)"
      "cls (graph True ! a) \<in> {Actor, Server, Datastore}"
      "cls (graph True ! b) \<in> {Actor, Server, Datastore}"
    by blast
  have "attr [source] (graph True ! 14) = Some (VRef 4)"
    "attr [destination] (graph True ! 14) = Some (VRef 6)"
    by (simp_all add: graph_eq built_graph_def attr_def cong: VStr_cong)
  with ab have "a = 4" "b = 6" by simp_all
  with ab hyp show ?thesis by simp
qed

text \<open>
  C5: every object in the data annotation of a Dataflow is a Data object created before
  that Dataflow, hence before the first Dataflow that refers to it.
\<close>

theorem dataflow_data_declared_before:
  "completes main \<and>
   (\<forall>f < length (graph main). \<forall>v.
      cls (graph main ! f) = Dataflow \<and> attr [data] (graph main ! f) = Some v \<longrightarrow>
      (\<forall>d \<in> set (refs v). d < f \<and> cls (graph main ! d) = Data))"
  unfolding graph_eq length_built_graph all_below upt_28
  by (simp add: completes_eq built_graph_def attr_def cong: VStr_cong)

theorem dataflow_data_declared_before_witness:
  "18 < length (graph True) \<and> cls (graph True ! 18) = Dataflow \<and>
   attr [data] (graph True ! 18) = Some (VList [VRef 9, VRef 10, VRef 11, VRef 12, VRef 13]) \<and>
   13 \<in> set (refs (VList [VRef 9, VRef 10, VRef 11, VRef 12, VRef 13])) \<and>
   (13::nat) < 18 \<and> cls (graph True ! 13) = Data"
proof -
  have hyp: "18 < length (graph True)" "cls (graph True ! 18) = Dataflow"
    "attr [data] (graph True ! 18) = Some (VList [VRef 9, VRef 10, VRef 11, VRef 12, VRef 13])"
    by (simp_all add: graph_eq built_graph_def attr_def cong: VStr_cong)
  have mem: "13 \<in> set (refs (VList [VRef 9, VRef 10, VRef 11, VRef 12, VRef 13]))"
    by simp
  from dataflow_data_declared_before [of True] hyp mem
  have "(13::nat) < 18 \<and> cls (graph True ! 13) = Data"
    by blast
  with hyp mem show ?thesis by simp
qed

subsection \<open>Classification and encryption at rest\<close>

text \<open>
  C6: every value the script leaves in a \<open>classification\<close> or a \<open>maxClassification\<close>
  attribute is a member of the \<open>Classification\<close> enumeration.
\<close>

theorem classification_levels_in_enumeration:
  "completes main \<and>
   (\<forall>ob \<in> set (graph main). \<forall>p \<in> {[classification], [maxClassification]}. \<forall>v.
      attr p ob = Some v \<longrightarrow>
      (\<exists>m \<in> set Classification_levels. v = VEnum ''Classification'' m))"
  unfolding graph_eq
  by (simp add: completes_eq built_graph_def attr_def Classification_levels_def cong: VStr_cong)

theorem classification_levels_in_enumeration_witness:
  "graph True ! 8 \<in> set (graph True) \<and>
   attr [maxClassification] (graph True ! 8) = Some (VEnum ''Classification'' ''RESTRICTED'') \<and>
   ''RESTRICTED'' \<in> set Classification_levels"
proof -
  have "8 < length (graph True)"
    by (simp add: graph_eq length_built_graph)
  then have mem: "graph True ! 8 \<in> set (graph True)"
    by (rule nth_mem)
  have hyp: "attr [maxClassification] (graph True ! 8) = Some (VEnum ''Classification'' ''RESTRICTED'')"
    by (simp add: graph_eq built_graph_def attr_def cong: VStr_cong)
  from classification_levels_in_enumeration [of True] mem hyp
  obtain m where "m \<in> set Classification_levels"
    and "VEnum ''Classification'' ''RESTRICTED'' = VEnum ''Classification'' m"
    by blast
  then have "''RESTRICTED'' \<in> set Classification_levels" by simp
  with mem hyp show ?thesis by simp
qed

text \<open>
  C10: every Data object with \<open>isStored\<close> set to \<open>True\<close> also has \<open>isDestEncryptedAtRest\<close>
  set to \<open>True\<close>; these objects are the credentials, the profile data, the workout data and
  the class schedule.
\<close>

theorem stored_data_encrypted_at_rest:
  "completes main \<and>
   (\<forall>d \<in> set (graph main). cls d = Data \<and> attr [isStored] d = Some (VBool True) \<longrightarrow>
      attr [isDestEncryptedAtRest] d = Some (VBool True)) \<and>
   map (attr [name])
     (filter (\<lambda>d. cls d = Data \<and> attr [isStored] d = Some (VBool True)) (graph main)) =
     [Some (VStr ''User Credentials''), Some (VStr ''User Profile Data''),
      Some (VStr ''Workout and Routine Data''), Some (VStr ''Class Schedule Data'')]"
  unfolding graph_eq
  by (simp add: completes_eq built_graph_def attr_def cong: VStr_cong)

theorem stored_data_encrypted_at_rest_witness:
  "graph True ! 9 \<in> set (graph True) \<and> cls (graph True ! 9) = Data \<and>
   attr [isStored] (graph True ! 9) = Some (VBool True) \<and>
   attr [isDestEncryptedAtRest] (graph True ! 9) = Some (VBool True)"
proof -
  have "9 < length (graph True)"
    by (simp add: graph_eq length_built_graph)
  then have mem: "graph True ! 9 \<in> set (graph True)"
    by (rule nth_mem)
  have hyp: "cls (graph True ! 9) = Data" "attr [isStored] (graph True ! 9) = Some (VBool True)"
    by (simp_all add: graph_eq built_graph_def attr_def cong: VStr_cong)
  from stored_data_encrypted_at_rest [of True] mem hyp
  have "attr [isDestEncryptedAtRest] (graph True ! 9) = Some (VBool True)"
    by blast
  with mem hyp show ?thesis by simp
qed

subsection \<open>Effects\<close>

text \<open>
  C8: every statement before the guarded call constructs an entity or assigns an attribute;
  however far the script has run before that call, nothing externally visible has happened;
  and over the whole run as a program the only externally visible event is the one call of
  the processor.
\<close>

theorem no_effect_before_process:
  "list_all is_decl declarations \<and>
   script = declarations @ [IfMain [Call tm process]] \<and>
   (\<forall>n \<le> length declarations. \<forall>s.
      exec_all main (take n script) init = Inr s \<longrightarrow> emitted (log s) = []) \<and>
   emitted (trace True) = [Processed 0]"
proof -
  have "emitted (log s) = []"
    if n: "n \<le> length declarations" and r: "exec_all main (take n script) init = Inr s"
    for n s
  proof -
    from n have "take n script = take n declarations"
      by (simp add: script_def)
    moreover have "list_all is_decl (take n declarations)"
      using declarations_decl by (auto simp: list_all_iff dest: in_set_takeD)
    ultimately have "emitted (log s) = emitted (log init)"
      using r exec_all_decl_emitted by metis
    then show ?thesis
      by (simp add: init_def emitted_def)
  qed
  moreover have "emitted (trace True) = [Processed 0]"
    by (simp add: trace_eq emitted_def built_log_def)
  ultimately show ?thesis
    by (simp add: declarations_decl script_def main_guard_def)
qed

theorem no_effect_before_process_witness:
  "length declarations \<le> length declarations \<and>
   exec_all True (take (length declarations) script) init = Inr built \<and>
   emitted (log built) = []"
proof -
  have r: "exec_all True (take (length declarations) script) init = Inr built"
    by (simp add: script_def exec_declarations)
  with no_effect_before_process [of True] have "emitted (log built) = []"
    by auto
  with r show ?thesis by simp
qed


end
